theory Spec2Isabelle
  imports Main
begin

section \<open>Runtime type generation: wrangler/src/type-generation/runtime/index.ts\<close>

text \<open>
  The module exports two asynchronous functions. \<open>generateRuntimeTypes\<close> validates the
  configuration, resolves the output file, prepares its directory and calls \<open>generate\<close>;
  \<open>generate\<close> reads the bundled worker script, creates a Miniflare instance, dispatches
  one request whose path encodes the compatibility date and flags, reads the response
  body, and then writes the file and disposes of the instance under one \<open>Promise.all\<close>.

  The embedding follows the current revision of the module (the one that accepts an
  optional \<open>outFile\<close>); the earlier revisions differ in \<open>generateRuntimeTypes\<close> and in log
  lines only, the body of \<open>generate\<close> is the same. A thrown exception or a rejected promise is a value \<open>Inl e\<close>;
  every call to a collaborator (file system, logger, Miniflare) is recorded as an event,
  in call order, and the contents of the files are passed explicitly.
\<close>

subsection \<open>Request path encoding (the locals \<open>flagsString\<close> and \<open>path\<close> of \<open>generate\<close>)\<close>

text \<open>\<open>Array.prototype.join\<close> on an array of strings.\<close>

fun join :: "string \<Rightarrow> string list \<Rightarrow> string" where
  "join sep [] = ''''"
| "join sep [x] = x"
| "join sep (x # y # ys) = x @ sep @ join sep (y # ys)"

definition flagsString :: "string list \<Rightarrow> string" where
  "flagsString compatibilityFlags =
     (if length compatibilityFlags \<noteq> 0 then ''+'' @ join ''+'' compatibilityFlags else '''')"

definition path :: "string \<Rightarrow> string list \<Rightarrow> string" where
  "path compatibilityDate compatibilityFlags =
     ''http://dummy.com/'' @ compatibilityDate @ flagsString compatibilityFlags"

subsection \<open>Errors, collaborators and effects\<close>

text \<open>
  A \<open>failure\<close> is whatever a collaborator throws or rejects with. An \<open>error\<close> is what a
  call of this module fails with: \<open>Error msg\<close> is its own \<open>throw new Error(msg)\<close>, and
  \<open>External f\<close> is a collaborator's failure, which reaches the caller unchanged since the
  module catches nothing.
\<close>

datatype failure = Failure string

datatype error = Error string | External failure

text \<open>The options object handed to \<open>new Miniflare(...)\<close>.\<close>

datatype mf_options = MiniflareOptions
  (mf_compatibilityDate: string)
  (mf_compatibilityFlags: "string list")
  (mf_modules: bool)
  (mf_script: string)

text \<open>
  A response is known to this module only through \<open>res.text()\<close>, which yields the body or
  rejects.
\<close>

type_synonym response = "failure + string"

text \<open>
  A Miniflare instance, as far as the module uses it: \<open>mf.dispatchFetch(path)\<close> and
  \<open>mf.dispose()\<close> (\<open>None\<close>: resolved, \<open>Some f\<close>: rejected with \<open>f\<close>).
\<close>

record miniflare =
  dispatchFetch :: "string \<Rightarrow> failure + response"
  dispose :: "failure option"

text \<open>
  \<open>writeFile(path, content, "utf8")\<close> of \<open>fs/promises\<close> opens the file with flag \<open>w\<close>
  (create or truncate) and then writes the data. It resolves once everything is written,
  rejects without touching the file when the open fails, or rejects after the truncation
  with only the first \<open>n\<close> characters written.
\<close>

datatype write_outcome = Written | OpenFailed failure | WriteFailed nat failure

fun writeError :: "write_outcome \<Rightarrow> failure option" where
  "writeError Written = None"
| "writeError (OpenFailed f) = Some f"
| "writeError (WriteFailed n f) = Some f"

fun applyWrite ::
  "write_outcome \<Rightarrow> string \<Rightarrow> string \<Rightarrow> (string \<rightharpoonup> string) \<Rightarrow> (string \<rightharpoonup> string)" where
  "applyWrite Written p content fs = fs(p \<mapsto> content)"
| "applyWrite (OpenFailed f) p content fs = fs"
| "applyWrite (WriteFailed n f) p content fs = fs(p \<mapsto> take n content)"

text \<open>
  The collaborators of the module, each a fixed function of its arguments: \<open>dirname\<close> and
  \<open>resolve\<close> of \<open>path\<close>, \<open>getBasePath\<close>, \<open>readFileSync\<close>, the \<open>Miniflare\<close> constructor,
  \<open>writeFile\<close>, and \<open>ensureDirectoryExists\<close>. The last one is imported from
  \<open>utils/log-file\<close>, whose code is not part of this module: it is called with the output
  file, creates the directory for it or rejects, and is taken to leave the contents of
  files alone. \<open>writeSettlesFirst\<close> says which of the two promises under \<open>Promise.all\<close>
  rejects first when both reject.
\<close>

record env =
  dirname :: "string \<Rightarrow> string"
  resolve :: "string \<Rightarrow> string \<Rightarrow> string"
  getBasePath :: string
  readFileSync :: "string \<Rightarrow> failure + string"
  ensureDirectoryExists :: "string \<Rightarrow> failure option"
  newMiniflare :: "mf_options \<Rightarrow> failure + miniflare"
  writeFile :: "string \<Rightarrow> string \<Rightarrow> write_outcome"
  writeSettlesFirst :: bool

text \<open>Calls to collaborators, recorded in the order in which the module makes them.\<close>

datatype event =
    EnsureDirectoryExists string
  | LoggerLog string
  | ReadFileSync string
  | NewMiniflare mf_options
  | DispatchFetch string
  | ResText
  | WriteFile string string
  | MfDispose

text \<open>The \<open>new Miniflare(...)\<close> calls among the events, with their arguments.\<close>

fun bootArguments :: "event list \<Rightarrow> mf_options list" where
  "bootArguments [] = []"
| "bootArguments (NewMiniflare options # es) = options # bootArguments es"
| "bootArguments (e # es) = bootArguments es"

text \<open>
  What one call leaves behind: how it settled, the calls it made, and the file contents.
\<close>

record outcome =
  result :: "error + unit"
  events :: "event list"
  files :: "string \<rightharpoonup> string"

subsection \<open>\<open>generate\<close>\<close>

record generate_options =
  outfilePath :: string
  compatibilityDate :: string
  compatibilityFlags :: "string list option"

text \<open>
  \<open>await Promise.all([p, q])\<close>: both calls have been made before the await; it resolves
  when both resolve and rejects with the rejection that comes first.
\<close>

definition promiseAll :: "failure option \<Rightarrow> failure option \<Rightarrow> bool \<Rightarrow> error + unit" where
  "promiseAll p q pFirst =
     (case p of
        None \<Rightarrow> (case q of None \<Rightarrow> Inr () | Some g \<Rightarrow> Inl (External g))
      | Some f \<Rightarrow>
          (case q of
             None \<Rightarrow> Inl (External f)
           | Some g \<Rightarrow> Inl (External (if pFirst then f else g))))"

text \<open>The default value of the parameter: \<open>compatibilityFlags = []\<close>.\<close>

definition defaultFlags :: "string list option \<Rightarrow> string list" where
  "defaultFlags given = (case given of None \<Rightarrow> [] | Some flags \<Rightarrow> flags)"

text \<open>The object literal passed to \<open>new Miniflare(...)\<close>.\<close>

definition miniflareOptions :: "string \<Rightarrow> mf_options" where
  "miniflareOptions workerScript =
     MiniflareOptions ''2024-01-01'' [''nodejs_compat'', ''rtti_api''] True workerScript"

definition workerScriptPath :: "env \<Rightarrow> string" where
  "workerScriptPath env =
     resolve env (getBasePath env) ''../../../workerd/bazel-bin/types/dist/index.mjs''"

text \<open>
  The body of \<open>generate\<close>, statement by statement. Each \<open>Inl\<close> branch is the exception of
  that statement leaving the function: of \<open>readFileSync\<close>, of \<open>new Miniflare\<close>, of
  \<open>await mf.dispatchFetch(path)\<close>, of \<open>await res.text()\<close>. The function has no
  \<open>try\<close>, \<open>catch\<close> or \<open>finally\<close>. The last branch is
  \<open>await Promise.all([writeFile(outfilePath, content, "utf8"), mf.dispose()])\<close>.
\<close>

definition generate :: "env \<Rightarrow> generate_options \<Rightarrow> (string \<rightharpoonup> string) \<Rightarrow> outcome" where
  "generate env opts fs =
     (case readFileSync env (workerScriptPath env) of
        Inl f \<Rightarrow>
          \<lparr>result = Inl (External f),
           events = [ReadFileSync (workerScriptPath env)],
           files = fs\<rparr>
      | Inr workerScript \<Rightarrow>
          (case newMiniflare env (miniflareOptions workerScript) of
             Inl f \<Rightarrow>
               \<lparr>result = Inl (External f),
                events = [ReadFileSync (workerScriptPath env),
                          NewMiniflare (miniflareOptions workerScript)],
                files = fs\<rparr>
           | Inr mf \<Rightarrow>
               let p = path (compatibilityDate opts) (defaultFlags (compatibilityFlags opts))
               in
               (case dispatchFetch mf p of
                  Inl f \<Rightarrow>
                    \<lparr>result = Inl (External f),
                     events = [ReadFileSync (workerScriptPath env),
                               NewMiniflare (miniflareOptions workerScript),
                               DispatchFetch p],
                     files = fs\<rparr>
                | Inr res \<Rightarrow>
                    (case res of
                       Inl f \<Rightarrow>
                         \<lparr>result = Inl (External f),
                          events = [ReadFileSync (workerScriptPath env),
                                    NewMiniflare (miniflareOptions workerScript),
                                    DispatchFetch p, ResText],
                          files = fs\<rparr>
                     | Inr content \<Rightarrow>
                         \<lparr>result =
                            promiseAll (writeError (writeFile env (outfilePath opts) content))
                              (dispose mf) (writeSettlesFirst env),
                          events = [ReadFileSync (workerScriptPath env),
                                    NewMiniflare (miniflareOptions workerScript),
                                    DispatchFetch p, ResText,
                                    WriteFile (outfilePath opts) content, MfDispose],
                          files =
                            applyWrite (writeFile env (outfilePath opts) content)
                              (outfilePath opts) content fs\<rparr>))))"

subsection \<open>\<open>generateRuntimeTypes\<close>\<close>

definition DEFAULT_OUTFILE_RELATIVE_PATH :: string where
  "DEFAULT_OUTFILE_RELATIVE_PATH = ''./.wrangler/types/runtime.d.ts''"

text \<open>The two fields of \<open>Config\<close> that the module reads; either may be \<open>undefined\<close>.\<close>

record config =
  compatibility_date :: "string option"
  compatibility_flags :: "string list option"

record generateRuntimeTypes_args =
  config :: config
  outFile :: "string option"
  rootPath :: "string option"

text \<open>
  The guard \<open>outFile === undefined && rootPath === undefined\<close> together with
  \<open>outFile ?? resolve(dirname(rootPath as string), DEFAULT_OUTFILE_RELATIVE_PATH)\<close>:
  the cast \<open>rootPath as string\<close> is only reached with \<open>rootPath\<close> defined.
\<close>

definition outFileAbsolute :: "env \<Rightarrow> string option \<Rightarrow> string option \<Rightarrow> error + string" where
  "outFileAbsolute env outFileArg rootPathArg =
     (case outFileArg of
        Some f \<Rightarrow> Inr f
      | None \<Rightarrow>
          (case rootPathArg of
             None \<Rightarrow> Inl (Error ''A rootPath must be specified if no outFile is provided'')
           | Some r \<Rightarrow> Inr (resolve env (dirname env r) DEFAULT_OUTFILE_RELATIVE_PATH)))"

text \<open>
  \<open>!compatibility_date\<close> holds of \<open>undefined\<close> and of the empty string: the first two
  branches below.
\<close>

definition generateRuntimeTypes ::
  "env \<Rightarrow> generateRuntimeTypes_args \<Rightarrow> (string \<rightharpoonup> string) \<Rightarrow> outcome" where
  "generateRuntimeTypes env args fs =
     (case compatibility_date (config args) of
        None \<Rightarrow>
          \<lparr>result = Inl (Error ''Config must have a compatability date.''),
           events = [], files = fs\<rparr>
      | Some date \<Rightarrow>
          if date = '''' then
            \<lparr>result = Inl (Error ''Config must have a compatability date.''),
             events = [], files = fs\<rparr>
          else
            (case outFileAbsolute env (outFile args) (rootPath args) of
               Inl e \<Rightarrow> \<lparr>result = Inl e, events = [], files = fs\<rparr>
             | Inr target \<Rightarrow>
                 (case ensureDirectoryExists env target of
                    Some f \<Rightarrow>
                      \<lparr>result = Inl (External f),
                       events = [EnsureDirectoryExists target], files = fs\<rparr>
                  | None \<Rightarrow>
                      let g = generate env
                                \<lparr>outfilePath = target, compatibilityDate = date,
                                 compatibilityFlags = compatibility_flags (config args)\<rparr> fs
                      in
                      \<lparr>result = result g,
                       events =
                         [EnsureDirectoryExists target, LoggerLog ''Generating runtime types'']
                         @ events g
                         @ (case result g of
                              Inl e \<Rightarrow> []
                            | Inr u \<Rightarrow>
                                [LoggerLog (''Runtime types generated and written to ''
                                            @ target @ '' '' @ [CHR 0x0A])]),
                       files = files g\<rparr>)))"

subsection \<open>Stand-in collaborators for concrete runs\<close>

definition stubDirname :: "string \<Rightarrow> string" where
  "stubDirname p = rev (tl (dropWhile (\<lambda>c. c \<noteq> CHR ''/'') (rev p)))"

definition stubResolve :: "string \<Rightarrow> string \<Rightarrow> string" where
  "stubResolve base rel = base @ ''/'' @ (if take 2 rel = ''./'' then drop 2 rel else rel)"

definition stubMiniflare :: miniflare where
  "stubMiniflare =
     \<lparr>dispatchFetch = (\<lambda>p. Inr (Inr ''declare const X: string;'')), dispose = None\<rparr>"

definition stubEnv :: env where
  "stubEnv =
     \<lparr>dirname = stubDirname, resolve = stubResolve, getBasePath = ''/base'',
      readFileSync = (\<lambda>p. Inr ''export default {}''),
      ensureDirectoryExists = (\<lambda>p. None),
      newMiniflare = (\<lambda>options. Inr stubMiniflare),
      writeFile = (\<lambda>p content. Written),
      writeSettlesFirst = True\<rparr>"

definition stubOptions :: generate_options where
  "stubOptions =
     \<lparr>outfilePath = ''/tmp/out.d.ts'', compatibilityDate = ''2023-07-24'',
      compatibilityFlags = Some [''experimental'']\<rparr>"

definition oldFiles :: "string \<rightharpoonup> string" where
  "oldFiles = [''/tmp/out.d.ts'' \<mapsto> ''declare const OLD: number;'']"

definition stubArgs :: generateRuntimeTypes_args where
  "stubArgs =
     \<lparr>config = \<lparr>compatibility_date = Some ''2023-07-24'',
                compatibility_flags = Some [''experimental'']\<rparr>,
      outFile = None, rootPath = Some ''/proj/wrangler.toml''\<rparr>"

text \<open>
  Collaborators that fail: the request, the bundled script, the boot, the body, the write
  (the disk fills up after seven characters) and the directory.
\<close>

definition dispatchFailsEnv :: env where
  "dispatchFailsEnv =
     stubEnv\<lparr>newMiniflare :=
       (\<lambda>options. Inr (stubMiniflare\<lparr>dispatchFetch := (\<lambda>p. Inl (Failure ''fetch failed''))\<rparr>))\<rparr>"

definition scriptMissingEnv :: env where
  "scriptMissingEnv = stubEnv\<lparr>readFileSync := (\<lambda>p. Inl (Failure ''ENOENT''))\<rparr>"

definition bootFailsEnv :: env where
  "bootFailsEnv = stubEnv\<lparr>newMiniflare := (\<lambda>options. Inl (Failure ''workerd did not start''))\<rparr>"

definition bodyFailsEnv :: env where
  "bodyFailsEnv =
     stubEnv\<lparr>newMiniflare :=
       (\<lambda>options. Inr (stubMiniflare\<lparr>dispatchFetch := (\<lambda>p. Inr (Inl (Failure ''body aborted'')))\<rparr>))\<rparr>"

definition writeFailsEnv :: env where
  "writeFailsEnv = stubEnv\<lparr>writeFile := (\<lambda>p content. WriteFailed 7 (Failure ''ENOSPC''))\<rparr>"

definition mkdirFailsEnv :: env where
  "mkdirFailsEnv = stubEnv\<lparr>ensureDirectoryExists := (\<lambda>p. Some (Failure ''EACCES''))\<rparr>"

section \<open>Properties\<close>

subsection \<open>The encoding\<close>

lemma join_plus_Cons: "''+'' @ join ''+'' (f # fs) = concat (map ((@) ''+'') (f # fs))"
  by (induction fs arbitrary: f) simp_all

lemma flagsString_concat: "flagsString fs = concat (map ((@) ''+'') fs)"
proof (cases fs)
  case Nil
  then show ?thesis by (simp add: flagsString_def)
next
  case (Cons f fs')
  then show ?thesis using join_plus_Cons [of f fs'] by (simp add: flagsString_def)
qed

lemma generate_dispatch_path:
  "DispatchFetch p \<in> set (events (generate env opts fs)) \<Longrightarrow>
   p = path (compatibilityDate opts) (defaultFlags (compatibilityFlags opts))"
  by (auto simp add: generate_def Let_def split: sum.splits)

text \<open>
  Claim C3. The request path is the fixed authority \<open>http://dummy.com/\<close> followed by the
  date; with no flags nothing follows the date; with flags the suffix is \<open>+\<close> and the flags
  joined by \<open>+\<close>, that is, every flag in the caller's order with a \<open>+\<close> before it. The two
  examples of the specification evaluate as written, and the path that \<open>generate\<close>
  dispatches is this encoding of its date and flags (no flags when they are omitted).
\<close>

theorem path_encoding:
  "path d [] = ''http://dummy.com/'' @ d
   \<and> (flags \<noteq> [] \<longrightarrow> path d flags = ''http://dummy.com/'' @ d @ ''+'' @ join ''+'' flags)
   \<and> path d flags = ''http://dummy.com/'' @ d @ concat (map (\<lambda>flag. ''+'' @ flag) flags)
   \<and> path ''2024-01-01'' [''nodejs_compat'', ''rtti_api'']
       = ''http://dummy.com/2024-01-01+nodejs_compat+rtti_api''
   \<and> path ''2024-01-01'' [] = ''http://dummy.com/2024-01-01''
   \<and> (DispatchFetch p \<in> set (events (generate env opts fs)) \<longrightarrow>
        p = path (compatibilityDate opts) (defaultFlags (compatibilityFlags opts)))
   \<and> defaultFlags None = [] \<and> defaultFlags (Some flags) = flags"
proof -
  have empty: "path d [] = ''http://dummy.com/'' @ d"
    by (simp add: path_def flagsString_def)
  have nonempty: "flags \<noteq> [] \<longrightarrow> path d flags = ''http://dummy.com/'' @ d @ ''+'' @ join ''+'' flags"
    by (simp add: path_def flagsString_def)
  have general: "path d flags = ''http://dummy.com/'' @ d @ concat (map (\<lambda>flag. ''+'' @ flag) flags)"
    by (simp only: path_def flagsString_concat)
  have two: "path ''2024-01-01'' [''nodejs_compat'', ''rtti_api'']
       = ''http://dummy.com/2024-01-01+nodejs_compat+rtti_api''"
    by (simp add: path_def flagsString_def)
  have none: "path ''2024-01-01'' [] = ''http://dummy.com/2024-01-01''"
    by (simp add: path_def flagsString_def)
  show ?thesis
    using empty nonempty general two none generate_dispatch_path [of p env opts fs]
    by (simp add: defaultFlags_def)
qed

theorem path_encoding_witness:
  "path ''2023-07-24'' [''experimental''] = ''http://dummy.com/2023-07-24+experimental''
   \<and> DispatchFetch ''http://dummy.com/2023-07-24+experimental''
       \<in> set (events (generate stubEnv stubOptions Map.empty))"
proof -
  have sent: "DispatchFetch ''http://dummy.com/2023-07-24+experimental''
       \<in> set (events (generate stubEnv stubOptions Map.empty))"
    by (simp add: generate_def stubEnv_def stubOptions_def stubMiniflare_def path_def
        flagsString_def defaultFlags_def)
  have nonempty: "[''experimental''] \<noteq> ([] :: string list)" by simp
  from path_encoding [of "''2023-07-24''" "[''experimental'']"
      "''http://dummy.com/2023-07-24+experimental''" stubEnv stubOptions Map.empty] nonempty sent
  show ?thesis by simp
qed

text \<open>
  Claim C10. The encoding is not injective: date \<open>2024-01-01+a\<close> with no flags and date
  \<open>2024-01-01\<close> with the flag \<open>a\<close> are different configurations with the same request
  path, since date and flags are inserted verbatim and \<open>+\<close> is not escaped.
\<close>

theorem path_not_injective:
  "path ''2024-01-01+a'' [] = path ''2024-01-01'' [''a'']
   \<and> (''2024-01-01+a'', [] :: string list) \<noteq> (''2024-01-01'', [''a''])
   \<and> \<not> inj (\<lambda>(d, flags). path d flags)"
proof -
  have same: "path ''2024-01-01+a'' [] = path ''2024-01-01'' [''a'']"
    by (simp add: path_def flagsString_def)
  have differ: "(''2024-01-01+a'', [] :: string list) \<noteq> (''2024-01-01'', [''a''])"
    by simp
  have "\<not> inj (\<lambda>(d, flags). path d flags)"
  proof
    assume "inj (\<lambda>(d, flags). path d flags)"
    then have "(''2024-01-01+a'', [] :: string list) = (''2024-01-01'', [''a''])"
      using same by (auto dest!: injD [where x = "(''2024-01-01+a'', [])" and y = "(''2024-01-01'', [''a''])"])
    with differ show False by blast
  qed
  with same differ show ?thesis by blast
qed

subsection \<open>What \<open>generate\<close> does to the files\<close>

lemma applyWrite_twice:
  "applyWrite w p c (applyWrite w p c fs) = applyWrite w p c fs"
  by (cases w) simp_all

lemma generate_files_idem:
  "files (generate env opts (files (generate env opts fs))) = files (generate env opts fs)"
  by (simp add: generate_def Let_def applyWrite_twice split: sum.splits)

lemma generate_result_indep: "result (generate env opts fs) = result (generate env opts fs')"
  by (simp add: generate_def Let_def split: sum.splits)

lemma generateRuntimeTypes_files_idem:
  "files (generateRuntimeTypes env args (files (generateRuntimeTypes env args fs)))
   = files (generateRuntimeTypes env args fs)"
  by (simp add: generateRuntimeTypes_def Let_def generate_files_idem
      split: option.splits sum.splits)

lemma generate_success_content:
  "result (generate env opts fs) = Inr () \<Longrightarrow>
   \<exists>content. files (generate env opts fs) (outfilePath opts) = Some content
      \<and> WriteFile (outfilePath opts) content \<in> set (events (generate env opts fs))"
  apply (simp add: generate_def Let_def split: sum.splits)
  apply (auto simp: promiseAll_def split: option.splits)
  subgoal for a b c by (cases "writeFile env (outfilePath opts) c") simp_all
  done

lemma generate_files_unless_write:
  "files (generate env opts fs) = fs
   \<or> (\<exists>content. WriteFile (outfilePath opts) content \<in> set (events (generate env opts fs)))"
  by (simp add: generate_def Let_def split: sum.splits)

lemma generateRuntimeTypes_files_unless_write:
  "files (generateRuntimeTypes env args fs) = fs
   \<or> (\<exists>p content. WriteFile p content \<in> set (events (generateRuntimeTypes env args fs)))"
proof (cases "files (generateRuntimeTypes env args fs) = fs")
  case True
  then show ?thesis by simp
next
  case False
  then obtain date target where
    g: "files (generate env \<lparr>outfilePath = target, compatibilityDate = date,
                 compatibilityFlags = compatibility_flags (config args)\<rparr> fs) \<noteq> fs"
    and e: "set (events (generate env \<lparr>outfilePath = target, compatibilityDate = date,
                 compatibilityFlags = compatibility_flags (config args)\<rparr> fs))
            \<subseteq> set (events (generateRuntimeTypes env args fs))"
    by (auto simp add: generateRuntimeTypes_def Let_def split: option.splits sum.splits if_splits)
  from g generate_files_unless_write [of env _ fs] e show ?thesis by fastforce
qed

lemma generate_raises_no_Error: "result (generate env opts fs) \<noteq> Inl (Error msg)"
  by (simp add: generate_def Let_def promiseAll_def split: sum.splits option.splits)

lemma generateRuntimeTypes_target:
  "WriteFile p content \<in> set (events (generateRuntimeTypes env args fs))
     \<or> EnsureDirectoryExists p \<in> set (events (generateRuntimeTypes env args fs)) \<Longrightarrow>
   outFileAbsolute env (outFile args) (rootPath args) = Inr p"
  by (auto simp add: generateRuntimeTypes_def generate_def Let_def
      split: option.splits sum.splits if_splits)

subsection \<open>Disposal of the sandbox\<close>

text \<open>
  Claim C1, as the code has it. \<open>mf.dispose()\<close> is called at most once in every run of
  \<open>generate\<close>, and exactly once in every run in which the request was dispatched and its
  body read: the call stands beside \<open>writeFile\<close> under \<open>Promise.all\<close>, so it has been made
  whether the write then succeeds or fails, and the run settles as \<open>Promise.all\<close> of the
  two does.
\<close>

theorem dispose_after_body_read:
  "count_list (events (generate env opts fs)) MfDispose \<le> 1
   \<and> (readFileSync env (workerScriptPath env) = Inr workerScript
        \<and> newMiniflare env (miniflareOptions workerScript) = Inr mf
        \<and> dispatchFetch mf (path (compatibilityDate opts) (defaultFlags (compatibilityFlags opts)))
            = Inr (Inr content)
      \<longrightarrow> count_list (events (generate env opts fs)) MfDispose = 1
          \<and> result (generate env opts fs)
              = promiseAll (writeError (writeFile env (outfilePath opts) content)) (dispose mf)
                  (writeSettlesFirst env))"
  by (simp add: generate_def Let_def split: sum.splits)

text \<open>
  A run whose write fails: the failure reaches the caller and \<open>dispose\<close> was called once.
\<close>

theorem dispose_after_body_read_witness:
  "result (generate writeFailsEnv stubOptions Map.empty) = Inl (External (Failure ''ENOSPC''))
   \<and> count_list (events (generate writeFailsEnv stubOptions Map.empty)) MfDispose = 1"
proof -
  have r: "readFileSync writeFailsEnv (workerScriptPath writeFailsEnv) = Inr ''export default {}''"
    by (simp add: writeFailsEnv_def stubEnv_def)
  have n: "newMiniflare writeFailsEnv (miniflareOptions ''export default {}'') = Inr stubMiniflare"
    by (simp add: writeFailsEnv_def stubEnv_def)
  have d: "dispatchFetch stubMiniflare
             (path (compatibilityDate stubOptions) (defaultFlags (compatibilityFlags stubOptions)))
           = Inr (Inr ''declare const X: string;'')"
    by (simp add: stubMiniflare_def)
  have p: "promiseAll
             (writeError (writeFile writeFailsEnv (outfilePath stubOptions) ''declare const X: string;''))
             (dispose stubMiniflare) (writeSettlesFirst writeFailsEnv)
           = Inl (External (Failure ''ENOSPC''))"
    by (simp add: promiseAll_def writeFailsEnv_def stubEnv_def stubMiniflare_def)
  from dispose_after_body_read [of writeFailsEnv stubOptions Map.empty "''export default {}''"
      stubMiniflare "''declare const X: string;''"] r n d p
  show ?thesis by simp
qed

text \<open>
  Claim C1 as stated fails where the request itself fails: there is no \<open>try\<close>/\<open>finally\<close>
  around \<open>await mf.dispatchFetch(path)\<close>, so the exception leaves \<open>generate\<close> before the
  line that calls \<open>dispose\<close>. The instance was created and is never disposed of.
\<close>

theorem dispatch_failure_leaves_sandbox:
  "result (generate dispatchFailsEnv stubOptions Map.empty) = Inl (External (Failure ''fetch failed''))
   \<and> events (generate dispatchFailsEnv stubOptions Map.empty)
       = [ReadFileSync ''/base/../../../workerd/bazel-bin/types/dist/index.mjs'',
          NewMiniflare (MiniflareOptions ''2024-01-01'' [''nodejs_compat'', ''rtti_api''] True
                          ''export default {}''),
          DispatchFetch ''http://dummy.com/2023-07-24+experimental'']
   \<and> count_list (events (generate dispatchFailsEnv stubOptions Map.empty)) MfDispose = 0"
  by (simp add: generate_def dispatchFailsEnv_def stubEnv_def stubOptions_def stubMiniflare_def
      workerScriptPath_def stubResolve_def miniflareOptions_def path_def flagsString_def
      defaultFlags_def)

subsection \<open>Files after a failure\<close>

text \<open>
  Claim C2, as the code has it. A run that fails before the body has been read (the
  bundled script cannot be read, the sandbox does not boot, the request fails, the body
  cannot be read) surfaces that failure and leaves every file as it was; and
  \<open>generateRuntimeTypes\<close> changes no file unless it has called \<open>writeFile\<close>, which covers
  its configuration errors and a failed directory preparation as well.
\<close>

theorem no_write_before_body_read:
  "(readFileSync env (workerScriptPath env) = Inl f \<longrightarrow>
      generate env opts fs =
        \<lparr>result = Inl (External f),
         events = [ReadFileSync (workerScriptPath env)],
         files = fs\<rparr>)
   \<and> (readFileSync env (workerScriptPath env) = Inr workerScript
        \<and> newMiniflare env (miniflareOptions workerScript) = Inl f \<longrightarrow>
      generate env opts fs =
        \<lparr>result = Inl (External f),
         events = [ReadFileSync (workerScriptPath env),
                   NewMiniflare (miniflareOptions workerScript)],
         files = fs\<rparr>)
   \<and> (readFileSync env (workerScriptPath env) = Inr workerScript
        \<and> newMiniflare env (miniflareOptions workerScript) = Inr mf
        \<and> dispatchFetch mf (path (compatibilityDate opts) (defaultFlags (compatibilityFlags opts)))
            = Inl f \<longrightarrow>
      generate env opts fs =
        \<lparr>result = Inl (External f),
         events = [ReadFileSync (workerScriptPath env),
                   NewMiniflare (miniflareOptions workerScript),
                   DispatchFetch
                     (path (compatibilityDate opts) (defaultFlags (compatibilityFlags opts)))],
         files = fs\<rparr>)
   \<and> (readFileSync env (workerScriptPath env) = Inr workerScript
        \<and> newMiniflare env (miniflareOptions workerScript) = Inr mf
        \<and> dispatchFetch mf (path (compatibilityDate opts) (defaultFlags (compatibilityFlags opts)))
            = Inr (Inl f) \<longrightarrow>
      generate env opts fs =
        \<lparr>result = Inl (External f),
         events = [ReadFileSync (workerScriptPath env),
                   NewMiniflare (miniflareOptions workerScript),
                   DispatchFetch
                     (path (compatibilityDate opts) (defaultFlags (compatibilityFlags opts))),
                   ResText],
         files = fs\<rparr>)
   \<and> (files (generateRuntimeTypes env args fs) = fs
        \<or> (\<exists>p content. WriteFile p content \<in> set (events (generateRuntimeTypes env args fs))))"
  using generateRuntimeTypes_files_unless_write [of env args fs]
  by (simp add: generate_def Let_def)

text \<open>
  The four failures on a target that already holds a declaration file, and a boot
  failure on a target that does not exist yet: the result is the collaborator's failure,
  the files are as before, and \<open>writeFile\<close> is not among the calls.
\<close>

theorem no_write_before_body_read_witness:
  "generate scriptMissingEnv stubOptions oldFiles =
     \<lparr>result = Inl (External (Failure ''ENOENT'')),
      events = [ReadFileSync (workerScriptPath scriptMissingEnv)], files = oldFiles\<rparr>
   \<and> generate bootFailsEnv stubOptions oldFiles =
     \<lparr>result = Inl (External (Failure ''workerd did not start'')),
      events = [ReadFileSync (workerScriptPath bootFailsEnv),
                NewMiniflare (miniflareOptions ''export default {}'')],
      files = oldFiles\<rparr>
   \<and> files (generate bootFailsEnv stubOptions Map.empty) = Map.empty
   \<and> generate dispatchFailsEnv stubOptions oldFiles =
     \<lparr>result = Inl (External (Failure ''fetch failed'')),
      events = [ReadFileSync (workerScriptPath dispatchFailsEnv),
                NewMiniflare (miniflareOptions ''export default {}''),
                DispatchFetch ''http://dummy.com/2023-07-24+experimental''],
      files = oldFiles\<rparr>
   \<and> generate bodyFailsEnv stubOptions oldFiles =
     \<lparr>result = Inl (External (Failure ''body aborted'')),
      events = [ReadFileSync (workerScriptPath bodyFailsEnv),
                NewMiniflare (miniflareOptions ''export default {}''),
                DispatchFetch ''http://dummy.com/2023-07-24+experimental'', ResText],
      files = oldFiles\<rparr>"
proof -
  let ?script = "''export default {}''"
  let ?p = "path (compatibilityDate stubOptions) (defaultFlags (compatibilityFlags stubOptions))"
  let ?noFetch = "stubMiniflare\<lparr>dispatchFetch := (\<lambda>p. Inl (Failure ''fetch failed''))\<rparr>"
  let ?noBody = "stubMiniflare\<lparr>dispatchFetch := (\<lambda>p. Inr (Inl (Failure ''body aborted'')))\<rparr>"
  have p: "?p = ''http://dummy.com/2023-07-24+experimental''"
    by (simp add: stubOptions_def path_def flagsString_def defaultFlags_def)
  have s1: "readFileSync scriptMissingEnv (workerScriptPath scriptMissingEnv)
      = Inl (Failure ''ENOENT'')"
    by (simp add: scriptMissingEnv_def stubEnv_def)
  have s2: "readFileSync bootFailsEnv (workerScriptPath bootFailsEnv) = Inr ?script
      \<and> newMiniflare bootFailsEnv (miniflareOptions ?script)
          = Inl (Failure ''workerd did not start'')"
    by (simp add: bootFailsEnv_def stubEnv_def)
  have s3: "readFileSync dispatchFailsEnv (workerScriptPath dispatchFailsEnv) = Inr ?script
      \<and> newMiniflare dispatchFailsEnv (miniflareOptions ?script) = Inr ?noFetch
      \<and> dispatchFetch ?noFetch ?p = Inl (Failure ''fetch failed'')"
    by (simp add: dispatchFailsEnv_def stubEnv_def)
  have s4: "readFileSync bodyFailsEnv (workerScriptPath bodyFailsEnv) = Inr ?script
      \<and> newMiniflare bodyFailsEnv (miniflareOptions ?script) = Inr ?noBody
      \<and> dispatchFetch ?noBody ?p = Inr (Inl (Failure ''body aborted''))"
    by (simp add: bodyFailsEnv_def stubEnv_def)
  from no_write_before_body_read [where env = scriptMissingEnv and f = "Failure ''ENOENT''"
      and opts = stubOptions and fs = oldFiles] s1
  have c1: "generate scriptMissingEnv stubOptions oldFiles =
     \<lparr>result = Inl (External (Failure ''ENOENT'')),
      events = [ReadFileSync (workerScriptPath scriptMissingEnv)], files = oldFiles\<rparr>"
    by blast
  from no_write_before_body_read [where env = bootFailsEnv and opts = stubOptions
      and fs = oldFiles and workerScript = ?script and f = "Failure ''workerd did not start''"] s2
  have c2: "generate bootFailsEnv stubOptions oldFiles =
     \<lparr>result = Inl (External (Failure ''workerd did not start'')),
      events = [ReadFileSync (workerScriptPath bootFailsEnv),
                NewMiniflare (miniflareOptions ?script)],
      files = oldFiles\<rparr>"
    by blast
  from no_write_before_body_read [where env = bootFailsEnv and opts = stubOptions
      and fs = Map.empty and workerScript = ?script and f = "Failure ''workerd did not start''"] s2
  have "generate bootFailsEnv stubOptions Map.empty =
     \<lparr>result = Inl (External (Failure ''workerd did not start'')),
      events = [ReadFileSync (workerScriptPath bootFailsEnv),
                NewMiniflare (miniflareOptions ?script)],
      files = Map.empty\<rparr>"
    by blast
  then have c2': "files (generate bootFailsEnv stubOptions Map.empty) = Map.empty"
    by simp
  from no_write_before_body_read [where env = dispatchFailsEnv and opts = stubOptions
      and fs = oldFiles and workerScript = ?script and f = "Failure ''fetch failed''"
      and mf = ?noFetch] s3
  have c3: "generate dispatchFailsEnv stubOptions oldFiles =
     \<lparr>result = Inl (External (Failure ''fetch failed'')),
      events = [ReadFileSync (workerScriptPath dispatchFailsEnv),
                NewMiniflare (miniflareOptions ?script), DispatchFetch ?p],
      files = oldFiles\<rparr>"
    by blast
  from no_write_before_body_read [where env = bodyFailsEnv and opts = stubOptions
      and fs = oldFiles and workerScript = ?script and f = "Failure ''body aborted''"
      and mf = ?noBody] s4
  have c4: "generate bodyFailsEnv stubOptions oldFiles =
     \<lparr>result = Inl (External (Failure ''body aborted'')),
      events = [ReadFileSync (workerScriptPath bodyFailsEnv),
                NewMiniflare (miniflareOptions ?script), DispatchFetch ?p, ResText],
      files = oldFiles\<rparr>"
    by blast
  from c1 c2 c2' c3 c4 show ?thesis unfolding p by blast
qed

text \<open>
  Claim C2 as stated fails for a failed write: \<open>generate\<close> writes in place with
  \<open>writeFile\<close>, with no temporary file and rename, so a write that fails after seven
  characters leaves those seven characters where the previous declarations were.
\<close>

theorem failed_write_leaves_partial_file:
  "oldFiles ''/tmp/out.d.ts'' = Some ''declare const OLD: number;''
   \<and> result (generate writeFailsEnv stubOptions oldFiles) = Inl (External (Failure ''ENOSPC''))
   \<and> files (generate writeFailsEnv stubOptions oldFiles) ''/tmp/out.d.ts'' = Some ''declare''"
  by (simp add: generate_def writeFailsEnv_def stubEnv_def stubOptions_def stubMiniflare_def
      promiseAll_def oldFiles_def)

subsection \<open>Precondition checks of \<open>generateRuntimeTypes\<close>\<close>

text \<open>
  Claim C4. With the compatibility date missing or empty, \<open>generateRuntimeTypes\<close> throws
  its configuration error having called no collaborator (no directory creation, no
  sandbox, no log line) and changed no file. The check is made there only: \<open>generate\<close>
  itself never throws an \<open>Error\<close> of its own, whatever date it is given.
\<close>

theorem missing_date_fails_first:
  "(compatibility_date (config args) = None \<or> compatibility_date (config args) = Some '''' \<longrightarrow>
      generateRuntimeTypes env args fs =
        \<lparr>result = Inl (Error ''Config must have a compatability date.''),
         events = [], files = fs\<rparr>)
   \<and> result (generate env opts fs) \<noteq> Inl (Error msg)"
  using generate_raises_no_Error [of env opts fs msg]
  by (auto simp add: generateRuntimeTypes_def)

text \<open>
  An empty date and an absent date at the entry point, and \<open>generate\<close> called directly
  with the empty date, which runs to completion.
\<close>

theorem missing_date_fails_first_witness:
  "generateRuntimeTypes stubEnv (stubArgs\<lparr>config := \<lparr>compatibility_date = Some '''',
        compatibility_flags = None\<rparr>\<rparr>) Map.empty =
     \<lparr>result = Inl (Error ''Config must have a compatability date.''),
      events = [], files = Map.empty\<rparr>
   \<and> generateRuntimeTypes stubEnv (stubArgs\<lparr>config := \<lparr>compatibility_date = None,
        compatibility_flags = None\<rparr>\<rparr>) Map.empty =
     \<lparr>result = Inl (Error ''Config must have a compatability date.''),
      events = [], files = Map.empty\<rparr>
   \<and> result (generate stubEnv (stubOptions\<lparr>compatibilityDate := ''''\<rparr>) Map.empty) = Inr ()"
proof -
  have empty: "compatibility_date (config (stubArgs\<lparr>config := \<lparr>compatibility_date = Some '''',
        compatibility_flags = None\<rparr>\<rparr>)) = Some ''''"
    by simp
  have absent: "compatibility_date (config (stubArgs\<lparr>config := \<lparr>compatibility_date = None,
        compatibility_flags = None\<rparr>\<rparr>)) = None"
    by simp
  have runs: "result (generate stubEnv (stubOptions\<lparr>compatibilityDate := ''''\<rparr>) Map.empty) = Inr ()"
    by (simp add: generate_def stubEnv_def stubOptions_def stubMiniflare_def promiseAll_def)
  from missing_date_fails_first [of "stubArgs\<lparr>config := \<lparr>compatibility_date = Some '''',
        compatibility_flags = None\<rparr>\<rparr>" stubEnv Map.empty] empty
    missing_date_fails_first [of "stubArgs\<lparr>config := \<lparr>compatibility_date = None,
        compatibility_flags = None\<rparr>\<rparr>" stubEnv Map.empty] absent runs
  show ?thesis by blast
qed

text \<open>
  Claim C5. With neither \<open>outFile\<close> nor \<open>rootPath\<close>, \<open>generateRuntimeTypes\<close> throws a
  configuration error having called no collaborator and changed no file: the error about
  the date when the date is missing too (that check comes first), the error about
  \<open>rootPath\<close> otherwise.
\<close>

theorem no_output_location_fails_first:
  "outFile args = None \<and> rootPath args = None \<longrightarrow>
     generateRuntimeTypes env args fs =
       \<lparr>result =
          Inl (Error
            (if compatibility_date (config args) = None
                \<or> compatibility_date (config args) = Some ''''
             then ''Config must have a compatability date.''
             else ''A rootPath must be specified if no outFile is provided'')),
        events = [], files = fs\<rparr>"
  by (auto simp add: generateRuntimeTypes_def outFileAbsolute_def split: option.splits)

theorem no_output_location_fails_first_witness:
  "generateRuntimeTypes stubEnv (stubArgs\<lparr>rootPath := None\<rparr>) Map.empty =
     \<lparr>result = Inl (Error ''A rootPath must be specified if no outFile is provided''),
      events = [], files = Map.empty\<rparr>"
proof -
  have neither: "outFile (stubArgs\<lparr>rootPath := None\<rparr>) = None \<and> rootPath (stubArgs\<lparr>rootPath := None\<rparr>) = None"
    by (simp add: stubArgs_def)
  have dated: "compatibility_date (config (stubArgs\<lparr>rootPath := None\<rparr>)) = Some ''2023-07-24''"
    by (simp add: stubArgs_def)
  from no_output_location_fails_first [of "stubArgs\<lparr>rootPath := None\<rparr>" stubEnv Map.empty]
    neither dated
  show ?thesis by simp
qed

subsection \<open>Order of directory preparation and boot\<close>

text \<open>
  Claim C6. Whenever \<open>generateRuntimeTypes\<close> creates a sandbox, its first call was
  \<open>ensureDirectoryExists\<close> on the output target, and that call succeeded; and when that
  call fails, its failure is the result and nothing else is called, so no sandbox is
  created.
\<close>

theorem directory_prepared_before_boot:
  "(NewMiniflare options \<in> set (events (generateRuntimeTypes env args fs)) \<longrightarrow>
      (\<exists>target rest.
          outFileAbsolute env (outFile args) (rootPath args) = Inr target
          \<and> ensureDirectoryExists env target = None
          \<and> events (generateRuntimeTypes env args fs) = EnsureDirectoryExists target # rest
          \<and> NewMiniflare options \<in> set rest))
   \<and> (compatibility_date (config args) = Some date \<and> date \<noteq> ''''
        \<and> outFileAbsolute env (outFile args) (rootPath args) = Inr target
        \<and> ensureDirectoryExists env target = Some f \<longrightarrow>
      generateRuntimeTypes env args fs =
        \<lparr>result = Inl (External f), events = [EnsureDirectoryExists target], files = fs\<rparr>)"
  by (auto simp add: generateRuntimeTypes_def Let_def split: option.splits sum.splits if_splits)

theorem directory_prepared_before_boot_witness:
  "generateRuntimeTypes mkdirFailsEnv stubArgs oldFiles =
     \<lparr>result = Inl (External (Failure ''EACCES'')),
      events = [EnsureDirectoryExists ''/proj/.wrangler/types/runtime.d.ts''],
      files = oldFiles\<rparr>
   \<and> (\<exists>rest.
         events (generateRuntimeTypes stubEnv stubArgs oldFiles)
           = EnsureDirectoryExists ''/proj/.wrangler/types/runtime.d.ts'' # rest
         \<and> NewMiniflare (miniflareOptions ''export default {}'') \<in> set rest)"
proof -
  let ?target = "''/proj/.wrangler/types/runtime.d.ts''"
  have dated: "compatibility_date (config stubArgs) = Some ''2023-07-24'' \<and> ''2023-07-24'' \<noteq> ''''"
    by (simp add: stubArgs_def)
  have target: "outFileAbsolute mkdirFailsEnv (outFile stubArgs) (rootPath stubArgs) = Inr ?target"
    by (simp add: outFileAbsolute_def mkdirFailsEnv_def stubEnv_def stubArgs_def stubResolve_def
        stubDirname_def DEFAULT_OUTFILE_RELATIVE_PATH_def)
  have target': "outFileAbsolute stubEnv (outFile stubArgs) (rootPath stubArgs) = Inr ?target"
    by (simp add: outFileAbsolute_def stubEnv_def stubArgs_def stubResolve_def
        stubDirname_def DEFAULT_OUTFILE_RELATIVE_PATH_def)
  have refused: "ensureDirectoryExists mkdirFailsEnv ?target = Some (Failure ''EACCES'')"
    by (simp add: mkdirFailsEnv_def stubEnv_def)
  have booted: "NewMiniflare (miniflareOptions ''export default {}'')
      \<in> set (events (generateRuntimeTypes stubEnv stubArgs oldFiles))"
    by (simp add: generateRuntimeTypes_def generate_def Let_def outFileAbsolute_def stubEnv_def
        stubArgs_def stubMiniflare_def)
  from directory_prepared_before_boot [where env = mkdirFailsEnv and args = stubArgs
      and fs = oldFiles and date = "''2023-07-24''" and target = ?target and f = "Failure ''EACCES''"]
    dated target refused
  have failed: "generateRuntimeTypes mkdirFailsEnv stubArgs oldFiles =
     \<lparr>result = Inl (External (Failure ''EACCES'')),
      events = [EnsureDirectoryExists ?target], files = oldFiles\<rparr>"
    by blast
  from directory_prepared_before_boot [where env = stubEnv and args = stubArgs
      and fs = oldFiles and options = "miniflareOptions ''export default {}''"] booted target'
  have "\<exists>rest.
         events (generateRuntimeTypes stubEnv stubArgs oldFiles) = EnsureDirectoryExists ?target # rest
         \<and> NewMiniflare (miniflareOptions ''export default {}'') \<in> set rest"
    by auto
  with failed show ?thesis by blast
qed

subsection \<open>The internal compatibility profile\<close>

text \<open>
  Claim C7. The arguments of \<open>new Miniflare(...)\<close> are the date \<open>2024-01-01\<close>, the flags
  \<open>nodejs_compat\<close> and \<open>rtti_api\<close>, \<open>modules: true\<close> and the bundled script, whenever the
  script could be read; two calls of \<open>generate\<close> with any two option objects (and any
  files) boot with the same arguments.
\<close>

theorem boot_arguments_fixed:
  "bootArguments (events (generate env opts fs)) =
     (case readFileSync env (workerScriptPath env) of
        Inl f \<Rightarrow> []
      | Inr workerScript \<Rightarrow>
          [MiniflareOptions ''2024-01-01'' [''nodejs_compat'', ''rtti_api''] True workerScript])
   \<and> bootArguments (events (generate env opts fs)) = bootArguments (events (generate env opts' fs'))"
proof -
  have fixed: "bootArguments (events (generate env o' s)) =
     (case readFileSync env (workerScriptPath env) of
        Inl f \<Rightarrow> []
      | Inr workerScript \<Rightarrow>
          [MiniflareOptions ''2024-01-01'' [''nodejs_compat'', ''rtti_api''] True workerScript])"
    for o' s
    by (simp add: generate_def Let_def miniflareOptions_def split: sum.splits)
  show ?thesis by (simp only: fixed)
qed

theorem boot_arguments_fixed_witness:
  "bootArguments (events (generate stubEnv stubOptions Map.empty))
     = [MiniflareOptions ''2024-01-01'' [''nodejs_compat'', ''rtti_api''] True ''export default {}'']
   \<and> bootArguments (events (generate stubEnv
         (stubOptions\<lparr>compatibilityDate := ''2021-11-03'', compatibilityFlags := None\<rparr>) oldFiles))
     = [MiniflareOptions ''2024-01-01'' [''nodejs_compat'', ''rtti_api''] True ''export default {}'']"
proof -
  have script: "readFileSync stubEnv (workerScriptPath stubEnv) = Inr ''export default {}''"
    by (simp add: stubEnv_def)
  from boot_arguments_fixed [of stubEnv stubOptions Map.empty
      "stubOptions\<lparr>compatibilityDate := ''2021-11-03'', compatibilityFlags := None\<rparr>" oldFiles] script
  show ?thesis by (metis (no_types, lifting) sum.case(2))
qed

subsection \<open>The output target\<close>

text \<open>
  Claim C8. An \<open>outFile\<close> that is supplied is the output target as it stands, whatever
  \<open>rootPath\<close> is; without it the target is \<open>./.wrangler/types/runtime.d.ts\<close> resolved
  against the directory of \<open>rootPath\<close>. This target is the path that
  \<open>generateRuntimeTypes\<close> prepares the directory for and writes to.
\<close>

theorem output_target_resolution:
  "outFileAbsolute env (Some explicit) root = Inr explicit
   \<and> outFileAbsolute env None (Some rootDir)
       = Inr (resolve env (dirname env rootDir) DEFAULT_OUTFILE_RELATIVE_PATH)
   \<and> DEFAULT_OUTFILE_RELATIVE_PATH = ''./.wrangler/types/runtime.d.ts''
   \<and> (WriteFile p content \<in> set (events (generateRuntimeTypes env args fs))
        \<or> EnsureDirectoryExists p \<in> set (events (generateRuntimeTypes env args fs)) \<longrightarrow>
      outFileAbsolute env (outFile args) (rootPath args) = Inr p)"
  using generateRuntimeTypes_target [of p content env args fs]
  by (simp add: outFileAbsolute_def DEFAULT_OUTFILE_RELATIVE_PATH_def)

theorem output_target_resolution_witness:
  "outFileAbsolute stubEnv (outFile stubArgs) (rootPath stubArgs)
     = Inr ''/proj/.wrangler/types/runtime.d.ts''
   \<and> WriteFile ''/proj/.wrangler/types/runtime.d.ts'' ''declare const X: string;''
       \<in> set (events (generateRuntimeTypes stubEnv stubArgs Map.empty))
   \<and> outFileAbsolute stubEnv (Some ''/tmp/out.d.ts'') (rootPath stubArgs) = Inr ''/tmp/out.d.ts''"
proof -
  let ?target = "''/proj/.wrangler/types/runtime.d.ts''"
  have written: "WriteFile ?target ''declare const X: string;''
       \<in> set (events (generateRuntimeTypes stubEnv stubArgs Map.empty))"
    by (simp add: generateRuntimeTypes_def generate_def Let_def outFileAbsolute_def stubEnv_def
        stubArgs_def stubMiniflare_def stubResolve_def stubDirname_def
        DEFAULT_OUTFILE_RELATIVE_PATH_def)
  from output_target_resolution [where env = stubEnv and args = stubArgs and fs = Map.empty
      and p = ?target and content = "''declare const X: string;''" and explicit = "''/tmp/out.d.ts''"
      and root = "rootPath stubArgs"] written
  show ?thesis by simp
qed

subsection \<open>Running twice\<close>

text \<open>
  Claim C9. With the same collaborators, the same options and the same target, a second
  run leaves the files exactly as the first run left them and settles the same way, for
  \<open>generate\<close> and for \<open>generateRuntimeTypes\<close>; and after a successful run the target holds
  the text that was written.
\<close>

theorem generate_twice_same_content:
  "files (generate env opts (files (generate env opts fs))) = files (generate env opts fs)
   \<and> result (generate env opts (files (generate env opts fs))) = result (generate env opts fs)
   \<and> files (generateRuntimeTypes env args (files (generateRuntimeTypes env args fs)))
       = files (generateRuntimeTypes env args fs)
   \<and> (result (generate env opts fs) = Inr () \<longrightarrow>
        (\<exists>content.
            files (generate env opts fs) (outfilePath opts) = Some content
            \<and> WriteFile (outfilePath opts) content \<in> set (events (generate env opts fs))))"
  using generate_files_idem [of env opts fs]
    generate_result_indep [of env opts "files (generate env opts fs)" fs]
    generateRuntimeTypes_files_idem [of env args fs]
    generate_success_content [of env opts fs]
  by blast

theorem generate_twice_same_content_witness:
  "files (generate stubEnv stubOptions (files (generate stubEnv stubOptions oldFiles))) ''/tmp/out.d.ts''
     = Some ''declare const X: string;''
   \<and> files (generate stubEnv stubOptions oldFiles) ''/tmp/out.d.ts'' = Some ''declare const X: string;''
   \<and> (\<exists>content.
         files (generate stubEnv stubOptions oldFiles) (outfilePath stubOptions) = Some content
         \<and> WriteFile (outfilePath stubOptions) content
             \<in> set (events (generate stubEnv stubOptions oldFiles)))"
proof -
  have ok: "result (generate stubEnv stubOptions oldFiles) = Inr ()"
    by (simp add: generate_def stubEnv_def stubOptions_def stubMiniflare_def promiseAll_def)
  have once: "files (generate stubEnv stubOptions oldFiles) ''/tmp/out.d.ts''
      = Some ''declare const X: string;''"
    by (simp add: generate_def stubEnv_def stubOptions_def stubMiniflare_def)
  from generate_twice_same_content [of stubEnv stubOptions oldFiles] ok once
  show ?thesis by simp
qed

end
